theory Spec2Isabelle
  imports Main
begin

section \<open>Data model\<close>

text \<open>
  The fields of \<^verbatim>\<open>PlaybookWithChecklist\<close> that the view reads: \<^verbatim>\<open>id\<close>, \<^verbatim>\<open>title\<close>,
  \<^verbatim>\<open>team_id\<close>, \<^verbatim>\<open>member_ids\<close> and \<^verbatim>\<open>delete_at\<close> (zero means active).
\<close>

record PlaybookWithChecklist =
  id' :: string
  title :: string
  team_id :: string
  member_ids :: "string list"
  delete_at :: int

record Team =
  name :: string
  display_name :: string

text \<open>
  The value held by the \<^verbatim>\<open>playbook\<close> state cell. Its declared type is
  \<^verbatim>\<open>PlaybookWithChecklist | null\<close>, but \<^verbatim>\<open>setPlaybook(fetchedPlaybook!)\<close> stores whatever
  the fetch resolved with: the non-null assertion is erased at run time, so
  \<^verbatim>\<open>undefined\<close> can be stored too. The strict comparison \<^verbatim>\<open>playbook === null\<close> tells
  the two apart.
\<close>

datatype jsplaybook = Null | Undefined | Obj PlaybookWithChecklist

text \<open>\<^verbatim>\<open>const FetchingStateType = {loading: 'loading', fetched: 'fetched', notFound: 'notfound'}\<close>\<close>

datatype FetchingStateType = loading | fetched | notFound

text \<open>
  How the promise returned by \<^verbatim>\<open>clientFetchPlaybook(playbookId)\<close> settles. The client
  module is external to the view, so the client is a parameter of the model; \<open>'e\<close> is
  whatever a rejection carries.
\<close>

datatype 'e promise = Resolves jsplaybook | Rejects 'e | Pending

text \<open>
  The component's two \<^verbatim>\<open>useState\<close> cells, and the trace of the identifiers passed to
  \<^verbatim>\<open>clientFetchPlaybook\<close> so far (the requests issued).
\<close>

record component =
  playbook :: jsplaybook
  fetchingState :: FetchingStateType
  fetchCalls :: "string list"

text \<open>\<^verbatim>\<open>useState(null)\<close>, \<^verbatim>\<open>useState(FetchingStateType.loading)\<close>, nothing requested yet.\<close>

definition initial :: component where
  "initial = \<lparr>playbook = Null, fetchingState = loading, fetchCalls = []\<rparr>"

section \<open>The fetch controller\<close>

text \<open>
  \<^verbatim>\<open>fetchData\<close>, taken at the moment its promise has settled. A string is truthy when
  it is not empty. A promise that never settles leaves both cells as they were.
\<close>

definition fetchData :: "(string \<Rightarrow> 'e promise) \<Rightarrow> string \<Rightarrow> component \<Rightarrow> component" where
  "fetchData clientFetchPlaybook playbookId s =
     (if playbookId \<noteq> [] then
        (case clientFetchPlaybook playbookId of
           Resolves fetchedPlaybook \<Rightarrow>
             s\<lparr>playbook := fetchedPlaybook, fetchingState := fetched,
               fetchCalls := fetchCalls s @ [playbookId]\<rparr>
         | Rejects e \<Rightarrow>
             s\<lparr>fetchingState := notFound, fetchCalls := fetchCalls s @ [playbookId]\<rparr>
         | Pending \<Rightarrow>
             s\<lparr>fetchCalls := fetchCalls s @ [playbookId]\<rparr>)
      else s)"

text \<open>
  \<^verbatim>\<open>useEffect(..., [match.params.playbookId])\<close>: the effect runs after the first render
  and after every later render whose route identifier differs from the one of the render
  before. \<open>rerender\<close> goes through the route identifiers of the later renders.
\<close>

fun rerender :: "(string \<Rightarrow> 'e promise) \<Rightarrow> string \<Rightarrow> string list \<Rightarrow> component \<Rightarrow> component" where
  "rerender clientFetchPlaybook prev [] s = s"
| "rerender clientFetchPlaybook prev (playbookId # ids) s =
     rerender clientFetchPlaybook playbookId ids
       (if playbookId = prev then s else fetchData clientFetchPlaybook playbookId s)"

definition mount :: "(string \<Rightarrow> 'e promise) \<Rightarrow> string \<Rightarrow> string list \<Rightarrow> component" where
  "mount clientFetchPlaybook playbookId ids =
     rerender clientFetchPlaybook playbookId ids (fetchData clientFetchPlaybook playbookId initial)"

section \<open>What the view reads from its surroundings\<close>

text \<open>
  The values the hooks and imports hand to one render: \<^verbatim>\<open>useLocation().pathname\<close>,
  \<^verbatim>\<open>useRouteMatch()\<close> (\<^verbatim>\<open>path\<close> and \<^verbatim>\<open>url\<close>), \<^verbatim>\<open>useExperimentalFeaturesEnabled()\<close>, the
  team selector of the host's store (\<^verbatim>\<open>getTeam(state, id)\<close>, undefined for an unknown team),
  \<^verbatim>\<open>pluginErrorUrl\<close> and \<^verbatim>\<open>ErrorPageTypes.PLAYBOOKS\<close> of the routing and constants modules,
  and the router's path matcher (pathname, route path, \<^verbatim>\<open>exact\<close>). All of them are defined
  outside the view and are parameters here; \<open>'t\<close> is the type of the error page tags.
\<close>

record 't hooks =
  location_pathname :: string
  match_path :: string
  match_url :: string
  experimentalFeaturesEnabled :: bool
  getTeam :: "string \<Rightarrow> Team option"
  pluginErrorUrl :: "'t \<Rightarrow> string"
  PLAYBOOKS :: 't
  matchPath :: "string \<Rightarrow> string \<Rightarrow> bool \<Rightarrow> bool"

section \<open>The rendered tree\<close>

text \<open>
  A rendered element: its component or tag name, its props in the order written, its
  children. The click handlers are the closures \<^verbatim>\<open>goToPlaybooks\<close>, \<^verbatim>\<open>goToEdit\<close> and
  \<^verbatim>\<open>runPlaybook\<close>; the tree records which one is attached, and what a click then does
  (navigation, telemetry) happens outside the render. Child components of other modules
  (\<^verbatim>\<open>PlaybookUsage\<close>, the styled buttons) stay opaque nodes.
\<close>

datatype handler = goToPlaybooks | goToEdit | runPlaybook

datatype propval =
    Str string
  | Flag bool
  | OnClick handler
  | Decimal int nat
  | Ident string
  | Style "(string \<times> string) list"
  | PlaybookProp PlaybookWithChecklist

datatype element =
    Text string
  | Fragment "element list"
  | Elem string "(string \<times> propval) list" "element list"

datatype rendered = RenderNull | Rendered element

datatype error = TypeError

abbreviation Redirect :: "string \<Rightarrow> element" where
  "Redirect url \<equiv> Elem ''Redirect'' [(''to'', Str url)] []"

text \<open>A number in a template literal: its decimal digits.\<close>

fun toString :: "nat \<Rightarrow> string" where
  "toString n =
     (if n < 10 then [''0123456789'' ! n]
      else toString (n div 10) @ [''0123456789'' ! (n mod 10)])"

declare toString.simps [simp del]

section \<open>The Playbook view\<close>

text \<open>\<^verbatim>\<open>playbook?.team_id || ''\<close>, the key of the team selector.\<close>

definition teamIdOrEmpty :: "jsplaybook \<Rightarrow> string" where
  "teamIdOrEmpty pb =
     (case pb of Obj p \<Rightarrow> (if team_id p \<noteq> [] then team_id p else []) | Null \<Rightarrow> [] | Undefined \<Rightarrow> [])"

text \<open>\<^verbatim>\<open>useForceDocumentTitle(playbook?.title ? (playbook.title + ' - Playbooks') : 'Playbooks')\<close>\<close>

definition documentTitle :: "component \<Rightarrow> string" where
  "documentTitle s =
     (case playbook s of
        Obj p \<Rightarrow> (if title p \<noteq> [] then title p @ '' - Playbooks'' else ''Playbooks'')
      | Null \<Rightarrow> ''Playbooks''
      | Undefined \<Rightarrow> ''Playbooks'')"

text \<open>
  The chain that assigns \<^verbatim>\<open>subTitle\<close> and \<^verbatim>\<open>accessIconClass\<close>, as the pair
  (\<^verbatim>\<open>subTitle\<close>, \<^verbatim>\<open>accessIconClass\<close>). \<^verbatim>\<open>team\<close> is truthy when the selector found a team.
\<close>

definition accessDescription :: "PlaybookWithChecklist \<Rightarrow> Team option \<Rightarrow> string \<times> string" where
  "accessDescription p team =
     (if length (member_ids p) = 1 then
        (''Only you can access this playbook'', ''icon-lock-outline'')
      else if length (member_ids p) > 1 then
        (toString (length (member_ids p)) @ '' people can access this playbook'',
         ''icon-lock-outline'')
      else (case team of
              Some t \<Rightarrow> (''Everyone in '' @ name t @ '' can access this playbook'', ''icon-globe'')
            | None \<Rightarrow> (''Everyone in this team can access this playbook'', ''icon-globe'')))"

text \<open>The \<^verbatim>\<open>TopContainer\<close> subtree of the returned fragment.\<close>

definition topContainer :: "PlaybookWithChecklist \<Rightarrow> Team option \<Rightarrow> element" where
  "topContainer p team =
     (let subTitle = fst (accessDescription p team);
          accessIconClass = snd (accessDescription p team);
          enableRunPlaybook = (delete_at p = 0)
      in Elem ''TopContainer'' []
           [Elem ''TitleRow'' []
              [Elem ''LeftArrow''
                 [(''className'', Str ''icon-arrow-left''), (''onClick'', OnClick goToPlaybooks)] [],
               Elem ''VerticalBlock'' []
                 [Elem ''Title'' [] [Text (title p)],
                  Elem ''HorizontalBlock'' [(''data-testid'', Str ''playbookPermissionsDescription'')]
                    [Elem ''i'' [(''className'', Str (''icon '' @ accessIconClass))] [],
                     Elem ''SubTitle'' [] [Text subTitle]]],
               Elem ''SecondaryButtonLargerRight'' [(''onClick'', OnClick goToEdit)]
                 [Elem ''i'' [(''className'', Str ''icon icon-pencil-outline'')] [],
                  Text ''Edit''],
               Elem ''PrimaryButtonLarger''
                 [(''onClick'', OnClick runPlaybook),
                  (''disabled'', Flag (\<not> enableRunPlaybook)),
                  (''data-testid'', Str ''run-playbook'')]
                 [Elem ''RightMarginedIcon''
                    [(''path'', Ident ''mdiClipboardPlayOutline''), (''size'', Decimal 125 2)] [],
                  Text ''Run'']]])"

definition activeNavItemStyle :: propval where
  "activeNavItemStyle =
     Style [(''color'', ''var(--button-bg)''),
            (''boxShadow'', ''inset 0px -2px 0px 0px var(--button-bg)'')]"

text \<open>The fragment with the \<^verbatim>\<open>Navbar\<close> and the \<^verbatim>\<open>Switch\<close>, rendered when experimental features are on.\<close>

definition tabs :: "'t hooks \<Rightarrow> PlaybookWithChecklist \<Rightarrow> element" where
  "tabs c p =
     Fragment
       [Elem ''Navbar'' []
          [Elem ''NavItem''
             [(''activeStyle'', activeNavItemStyle), (''to'', Str (match_url c @ ''/preview''))]
             [Text ''Preview''],
           Elem ''NavItem''
             [(''activeStyle'', activeNavItemStyle), (''to'', Str (match_url c @ ''/usage''))]
             [Text ''Usage'']],
        Elem ''Switch'' []
          [Elem ''Route'' [(''exact'', Flag True), (''path'', Str (match_path c))]
             [Redirect (match_url c @ ''/usage'')],
           Elem ''Route'' [(''path'', Str (match_path c @ ''/preview''))]
             [Elem ''h4'' [] [Text ''Site under construction'']],
           Elem ''Route'' [(''path'', Str (match_path c @ ''/usage''))]
             [Elem ''PlaybookUsage'' [(''playbook'', PlaybookProp p)] []]]]"

text \<open>
  The component function, from the first guard on. Reading \<^verbatim>\<open>playbook.member_ids\<close> of
  \<^verbatim>\<open>null\<close> or \<^verbatim>\<open>undefined\<close> throws a \<^verbatim>\<open>TypeError\<close>.
\<close>

definition Playbook :: "'t hooks \<Rightarrow> component \<Rightarrow> error + rendered" where
  "Playbook c s =
     (let team = getTeam c (teamIdOrEmpty (playbook s)) in
      if fetchingState s = loading then Inr RenderNull
      else if fetchingState s = notFound \<or> playbook s = Null then
        Inr (Rendered (Redirect (pluginErrorUrl c (PLAYBOOKS c))))
      else (case playbook s of
              Null \<Rightarrow> Inl TypeError
            | Undefined \<Rightarrow> Inl TypeError
            | Obj p \<Rightarrow>
                Inr (Rendered (Fragment
                  [topContainer p team,
                   if \<not> experimentalFeaturesEnabled c
                   then Elem ''PlaybookUsage'' [(''playbook'', PlaybookProp p)] []
                   else tabs c p]))))"

section \<open>Reading the rendered tree\<close>

text \<open>All elements of a tree that satisfy a predicate, in document order.\<close>

fun findAll :: "(element \<Rightarrow> bool) \<Rightarrow> element \<Rightarrow> element list" where
  "findAll P (Text t) = (if P (Text t) then [Text t] else [])"
| "findAll P (Fragment es) =
     (if P (Fragment es) then [Fragment es] else []) @ concat (map (findAll P) es)"
| "findAll P (Elem tag props es) =
     (if P (Elem tag props es) then [Elem tag props es] else []) @ concat (map (findAll P) es)"

fun propsOf :: "element \<Rightarrow> (string \<times> propval) list" where
  "propsOf (Elem tag ps es) = ps"
| "propsOf (Fragment es) = []"
| "propsOf (Text t) = []"

fun tagOf :: "element \<Rightarrow> string" where
  "tagOf (Elem tag ps es) = tag"
| "tagOf (Fragment es) = []"
| "tagOf (Text t) = []"

fun children :: "element \<Rightarrow> element list" where
  "children (Elem tag ps es) = es"
| "children (Fragment es) = es"
| "children (Text t) = []"

definition hasTestId :: "string \<Rightarrow> element \<Rightarrow> bool" where
  "hasTestId t e = (map_of (propsOf e) ''data-testid'' = Some (Str t))"

text \<open>The elements of a render that carry the given \<^verbatim>\<open>data-testid\<close>; none when nothing is rendered.\<close>

definition findByTestId :: "string \<Rightarrow> error + rendered \<Rightarrow> element list" where
  "findByTestId t r =
     (case r of Inr (Rendered tree) \<Rightarrow> findAll (hasTestId t) tree
      | Inr RenderNull \<Rightarrow> []
      | Inl e \<Rightarrow> [])"

definition isDisabled :: "element \<Rightarrow> bool" where
  "isDisabled e = (map_of (propsOf e) ''disabled'' = Some (Flag True))"

text \<open>The elements of a render with the given component or tag name.\<close>

definition findByTag :: "string \<Rightarrow> error + rendered \<Rightarrow> element list" where
  "findByTag tag r =
     (case r of Inr (Rendered tree) \<Rightarrow> findAll (\<lambda>e. tagOf e = tag) tree
      | Inr RenderNull \<Rightarrow> []
      | Inl e \<Rightarrow> [])"

text \<open>Every \<^verbatim>\<open>data-testid\<close> of a tree, in document order.\<close>

fun testIds :: "element \<Rightarrow> string list" where
  "testIds (Text t) = []"
| "testIds (Fragment es) = concat (map testIds es)"
| "testIds (Elem tag ps es) =
     (case map_of ps ''data-testid'' of Some (Str t) \<Rightarrow> [t] | _ \<Rightarrow> []) @ concat (map testIds es)"

definition allTestIds :: "error + rendered \<Rightarrow> string list" where
  "allTestIds r =
     (case r of Inr (Rendered tree) \<Rightarrow> testIds tree | Inr RenderNull \<Rightarrow> [] | Inl e \<Rightarrow> [])"

text \<open>The permissions block as the view writes it: the icon's class and the text.\<close>

abbreviation description :: "string \<Rightarrow> string \<Rightarrow> element" where
  "description className subTitle \<equiv>
     Elem ''HorizontalBlock'' [(''data-testid'', Str ''playbookPermissionsDescription'')]
       [Elem ''i'' [(''className'', Str className)] [], Elem ''SubTitle'' [] [Text subTitle]]"

section \<open>The router\<close>

text \<open>
  The router's \<^verbatim>\<open>Switch\<close> mounts the children of the first of its children whose
  \<^verbatim>\<open>path\<close> matches the current location (with the child's \<^verbatim>\<open>exact\<close> flag); a child
  without a \<^verbatim>\<open>path\<close> always matches. The matching of one path is the context's
  \<open>matchPath\<close>.
\<close>

definition routeMatches :: "'t hooks \<Rightarrow> element \<Rightarrow> bool" where
  "routeMatches c e =
     (case map_of (propsOf e) ''path'' of
        Some (Str path) \<Rightarrow>
          matchPath c (location_pathname c) path (map_of (propsOf e) ''exact'' = Some (Flag True))
      | _ \<Rightarrow> True)"

fun switch :: "'t hooks \<Rightarrow> element list \<Rightarrow> element list" where
  "switch c [] = []"
| "switch c (e # es) = (if routeMatches c e then children e else switch c es)"

text \<open>What the switches of a render mount at the current location.\<close>

definition mounted :: "'t hooks \<Rightarrow> error + rendered \<Rightarrow> element list" where
  "mounted c r =
     (case r of
        Inr (Rendered tree) \<Rightarrow>
          concat (map (\<lambda>sw. switch c (children sw)) (findAll (\<lambda>e. tagOf e = ''Switch'') tree))
      | Inr RenderNull \<Rightarrow> []
      | Inl e \<Rightarrow> [])"

fun redirectTo :: "element \<Rightarrow> string option" where
  "redirectTo (Elem tag ps es) =
     (if tag = ''Redirect'' then (case map_of ps ''to'' of Some (Str url) \<Rightarrow> Some url | _ \<Rightarrow> None)
      else None)"
| "redirectTo (Fragment es) = None"
| "redirectTo (Text t) = None"

definition navigate :: "string \<Rightarrow> 't hooks \<Rightarrow> 't hooks" where
  "navigate url c = c\<lparr>location_pathname := url\<rparr>"

text \<open>
  A visit: the location is set to \<open>url\<close>, the view renders, and the first redirect that
  the switch mounts (if there is one) replaces the location.
\<close>

definition visit :: "string \<Rightarrow> 't hooks \<Rightarrow> component \<Rightarrow> 't hooks" where
  "visit url c s =
     (case List.map_filter redirectTo (mounted (navigate url c) (Playbook (navigate url c) s)) of
        [] \<Rightarrow> navigate url c
      | target # rest \<Rightarrow> navigate target c)"

section \<open>Fixtures\<close>

text \<open>
  The team and the playbooks that the end-to-end test of the view creates (a public
  playbook, one private to the current user, one shared by two users, an archived one),
  clients that settle in a fixed way, and a context for them. \<open>testMatchPath\<close> matches
  route paths made of plain and \<^verbatim>\<open>:param\<close> segments.
\<close>

definition testTeam :: Team where
  "testTeam = \<lparr>name = ''Foo'', display_name = ''Foo Team''\<rparr>"

definition testPublicPlaybook :: PlaybookWithChecklist where
  "testPublicPlaybook =
     \<lparr>id' = ''pub'', title = ''Public Playbook'', team_id = ''team1'', member_ids = [],
      delete_at = 0\<rparr>"

definition testPrivateOnlyMinePlaybook :: PlaybookWithChecklist where
  "testPrivateOnlyMinePlaybook =
     \<lparr>id' = ''mine'', title = ''Private Only Mine Playbook'', team_id = ''team1'',
      member_ids = [''testUser''], delete_at = 0\<rparr>"

definition testPrivateSharedPlaybook :: PlaybookWithChecklist where
  "testPrivateSharedPlaybook =
     \<lparr>id' = ''shared'', title = ''Private Shared Playbook'', team_id = ''team1'',
      member_ids = [''testUser'', ''anotherUser''], delete_at = 0\<rparr>"

definition testArchivedPlaybook :: PlaybookWithChecklist where
  "testArchivedPlaybook =
     \<lparr>id' = ''archived'', title = ''Playbook (1)'', team_id = ''team1'',
      member_ids = [''testUser''], delete_at = 1635000000000\<rparr>"

definition resolvesWith :: "jsplaybook \<Rightarrow> string \<Rightarrow> string promise" where
  "resolvesWith v playbookId = Resolves v"

definition rejectsWith :: "string \<Rightarrow> string \<Rightarrow> string promise" where
  "rejectsWith e playbookId = Rejects e"

definition testClient :: "string \<Rightarrow> string promise" where
  "testClient playbookId =
     (if playbookId = ''pub'' then Resolves (Obj testPublicPlaybook)
      else if playbookId = ''mine'' then Resolves (Obj testPrivateOnlyMinePlaybook)
      else if playbookId = ''shared'' then Resolves (Obj testPrivateSharedPlaybook)
      else if playbookId = ''archived'' then Resolves (Obj testArchivedPlaybook)
      else Rejects ''404'')"

fun segments :: "string \<Rightarrow> string \<Rightarrow> string list" where
  "segments cur [] = (if cur = [] then [] else [cur])"
| "segments cur (ch # cs) =
     (if ch = CHR ''/'' then (if cur = [] then segments [] cs else cur # segments [] cs)
      else segments (cur @ [ch]) cs)"

fun matchSegments :: "string list \<Rightarrow> string list \<Rightarrow> bool \<Rightarrow> bool" where
  "matchSegments [] [] exact = True"
| "matchSegments [] (s # ss) exact = (\<not> exact)"
| "matchSegments (p # ps) [] exact = False"
| "matchSegments (p # ps) (s # ss) exact =
     ((take 1 p = '':'' \<or> p = s) \<and> matchSegments ps ss exact)"

definition testMatchPath :: "string \<Rightarrow> string \<Rightarrow> bool \<Rightarrow> bool" where
  "testMatchPath pathname path exact = matchSegments (segments [] path) (segments [] pathname) exact"

definition testTeams :: "string \<Rightarrow> Team option" where
  "testTeams teamId = (if teamId = ''team1'' then Some testTeam else None)"

definition testErrorUrl :: "string \<Rightarrow> string" where
  "testErrorUrl type = ''/playbooks/error?type='' @ type"

definition testHooks :: "string hooks" where
  "testHooks =
     \<lparr>location_pathname = ''/playbooks/playbooks/pub'',
      match_path = ''/playbooks/playbooks/:playbookId'',
      match_url = ''/playbooks/playbooks/pub'',
      experimentalFeaturesEnabled = True,
      getTeam = testTeams,
      pluginErrorUrl = testErrorUrl,
      PLAYBOOKS = ''playbooks'',
      matchPath = testMatchPath\<rparr>"

text \<open>A store that knows no team, and the context with experimental features off.\<close>

definition noTeams :: "string \<Rightarrow> Team option" where
  "noTeams teamId = None"

definition testHooksStable :: "string hooks" where
  "testHooksStable = testHooks\<lparr>experimentalFeaturesEnabled := False\<rparr>"

section \<open>Auxiliary facts\<close>

lemma rerender_same: "rerender cl i (replicate n i) s = s"
  by (induction n) auto

lemma teamIdOrEmpty_Obj: "teamIdOrEmpty (Obj p) = team_id p"
  by (simp add: teamIdOrEmpty_def)

lemma Playbook_fetched:
  "fetchingState s = fetched \<Longrightarrow> playbook s = Obj p \<Longrightarrow>
   Playbook c s = Inr (Rendered (Fragment
     [topContainer p (getTeam c (team_id p)),
      if \<not> experimentalFeaturesEnabled c
      then Elem ''PlaybookUsage'' [(''playbook'', PlaybookProp p)] []
      else tabs c p]))"
  by (simp add: Playbook_def teamIdOrEmpty_Obj)

lemma findByTestId_description:
  "findAll (hasTestId ''playbookPermissionsDescription'') (topContainer p team) =
     [description (''icon '' @ snd (accessDescription p team)) (fst (accessDescription p team))]"
  by (simp add: topContainer_def hasTestId_def Let_def)

lemma findByTestId_run:
  "map isDisabled (findAll (hasTestId ''run-playbook'') (topContainer p team)) = [delete_at p \<noteq> 0]"
  by (simp add: topContainer_def hasTestId_def isDisabled_def Let_def)

lemma findByTestId_tabs: "findAll (hasTestId t) (tabs c p) = []"
  by (simp add: tabs_def hasTestId_def activeNavItemStyle_def)

lemma findByTestId_usage:
  "findAll (hasTestId t) (Elem ''PlaybookUsage'' [(''playbook'', PlaybookProp p)] []) = []"
  by (simp add: hasTestId_def)

lemma description_fetched:
  "fetchingState s = fetched \<Longrightarrow> playbook s = Obj p \<Longrightarrow>
   findByTestId ''playbookPermissionsDescription'' (Playbook c s) =
     [description (''icon '' @ snd (accessDescription p (getTeam c (team_id p))))
        (fst (accessDescription p (getTeam c (team_id p))))]"
  by (simp add: Playbook_fetched findByTestId_def findByTestId_description findByTestId_tabs
      findByTestId_usage hasTestId_def)

lemma mount_testClient:
  "mount testClient ''pub'' [] =
     \<lparr>playbook = Obj testPublicPlaybook, fetchingState = fetched, fetchCalls = [''pub'']\<rparr>"
  "mount testClient ''mine'' [] =
     \<lparr>playbook = Obj testPrivateOnlyMinePlaybook, fetchingState = fetched, fetchCalls = [''mine'']\<rparr>"
  "mount testClient ''shared'' [] =
     \<lparr>playbook = Obj testPrivateSharedPlaybook, fetchingState = fetched, fetchCalls = [''shared'']\<rparr>"
  "mount testClient ''archived'' [] =
     \<lparr>playbook = Obj testArchivedPlaybook, fetchingState = fetched, fetchCalls = [''archived'']\<rparr>"
  by (simp_all add: mount_def fetchData_def testClient_def initial_def)

lemma toString_2: "toString (Suc (Suc 0)) = ''2''"
  by (simp add: toString.simps)

lemma toString_examples:
  "toString 0 = ''0''" "toString 12 = ''12''" "toString 305 = ''305''"
  by (simp_all add: toString.simps)

lemma switches_topContainer: "findAll (\<lambda>e. tagOf e = ''Switch'') (topContainer p team) = []"
  by (simp add: topContainer_def Let_def)

lemma redirects_topContainer: "findAll (\<lambda>e. tagOf e = ''Redirect'') (topContainer p team) = []"
  by (simp add: topContainer_def Let_def)

lemma mounted_tabs:
  "fetchingState s = fetched \<Longrightarrow> playbook s = Obj p \<Longrightarrow> experimentalFeaturesEnabled c \<Longrightarrow>
   mounted c (Playbook c s) =
     switch c
       [Elem ''Route'' [(''exact'', Flag True), (''path'', Str (match_path c))]
          [Redirect (match_url c @ ''/usage'')],
        Elem ''Route'' [(''path'', Str (match_path c @ ''/preview''))]
          [Elem ''h4'' [] [Text ''Site under construction'']],
        Elem ''Route'' [(''path'', Str (match_path c @ ''/usage''))]
          [Elem ''PlaybookUsage'' [(''playbook'', PlaybookProp p)] []]]"
  by (simp add: Playbook_fetched mounted_def switches_topContainer tabs_def)

lemma navigate_simps:
  "location_pathname (navigate url c) = url"
  "match_url (navigate url c) = match_url c"
  "match_path (navigate url c) = match_path c"
  "matchPath (navigate url c) = matchPath c"
  "experimentalFeaturesEnabled (navigate url c) = experimentalFeaturesEnabled c"
  "navigate url (navigate url' c) = navigate url c"
  by (simp_all add: navigate_def)

lemma root_mounts_redirect:
  assumes "fetchingState s = fetched" and "playbook s = Obj p"
    and "experimentalFeaturesEnabled c" and "matchPath c (match_url c) (match_path c) True"
  shows "mounted (navigate (match_url c) c) (Playbook (navigate (match_url c) c) s) =
           [Redirect (match_url c @ ''/usage'')]"
  using assms by (simp add: mounted_tabs navigate_simps routeMatches_def)

lemma testMatch_root:
  "testMatchPath ''/playbooks/playbooks/pub'' ''/playbooks/playbooks/:playbookId'' True"
  by (simp add: testMatchPath_def)

lemma testIds_topContainer:
  "testIds (topContainer p team) = [''playbookPermissionsDescription'', ''run-playbook'']"
  by (simp add: topContainer_def Let_def)

lemma testIds_tabs: "testIds (tabs c p) = []"
  by (simp add: tabs_def activeNavItemStyle_def)

text \<open>
  For a fetched playbook the view's own markup carries two test identifiers, whatever the
  playbook and the context.
\<close>

lemma allTestIds_fetched:
  "fetchingState s = fetched \<Longrightarrow> playbook s = Obj p \<Longrightarrow>
   allTestIds (Playbook c s) = [''playbookPermissionsDescription'', ''run-playbook'']"
  by (simp add: Playbook_fetched allTestIds_def testIds_topContainer testIds_tabs)

text \<open>With null stored, the render ends at one of the two guards and never reads a field.\<close>

lemma null_playbook_never_dereferenced:
  "playbook s = Null \<Longrightarrow>
   Playbook c s = Inr RenderNull \<or>
   Playbook c s = Inr (Rendered (Redirect (pluginErrorUrl c (PLAYBOOKS c))))"
  by (simp add: Playbook_def)

section \<open>The guards of the view\<close>

text \<open>
  C1, as stated: a redirect to the error page is rendered whenever the fetch status is
  not-found or the stored playbook is null. Right after mounting the stored playbook is
  null and the status is loading: the loading guard comes first and the view renders
  null, not the redirect.
\<close>

theorem view_guards_counterexample:
  "playbook initial = Null \<and> Playbook testHooks initial = Inr RenderNull \<and>
   Playbook testHooks initial \<noteq>
     Inr (Rendered (Redirect (pluginErrorUrl testHooks (PLAYBOOKS testHooks))))"
  by (simp add: Playbook_def initial_def)

text \<open>
  C1, amended: while the fetch status is loading the view renders null, so nothing derived
  from the playbook; whenever the status is not loading and it is not-found or the stored
  playbook is null, the view renders the redirect to the error page of this feature.
\<close>

theorem view_guards:
  "(fetchingState s = loading \<longrightarrow> Playbook c s = Inr RenderNull) \<and>
   (fetchingState s \<noteq> loading \<and> (fetchingState s = notFound \<or> playbook s = Null) \<longrightarrow>
      Playbook c s = Inr (Rendered (Redirect (pluginErrorUrl c (PLAYBOOKS c)))))"
  by (auto simp add: Playbook_def)

text \<open>
  The three cases on the fixtures: before the fetch, after a fetch of an unknown
  identifier, and after a fetch that resolved with null.
\<close>

theorem view_guards_witness:
  "fetchingState initial = loading \<and> Playbook testHooks initial = Inr RenderNull \<and>
   fetchingState (mount testClient ''an_unknown_id'' []) = notFound \<and>
   Playbook testHooks (mount testClient ''an_unknown_id'' []) =
     Inr (Rendered (Redirect ''/playbooks/error?type=playbooks'')) \<and>
   fetchingState (mount (resolvesWith Null) ''pub'' []) = fetched \<and>
   playbook (mount (resolvesWith Null) ''pub'' []) = Null \<and>
   Playbook testHooks (mount (resolvesWith Null) ''pub'' []) =
     Inr (Rendered (Redirect ''/playbooks/error?type=playbooks''))"
proof -
  have a: "mount testClient ''an_unknown_id'' [] =
      \<lparr>playbook = Null, fetchingState = notFound, fetchCalls = [''an_unknown_id'']\<rparr>"
    by (simp add: mount_def fetchData_def testClient_def initial_def)
  have b: "mount (resolvesWith Null) ''pub'' [] =
      \<lparr>playbook = Null, fetchingState = fetched, fetchCalls = [''pub'']\<rparr>"
    by (simp add: mount_def fetchData_def resolvesWith_def initial_def)
  have u: "pluginErrorUrl testHooks (PLAYBOOKS testHooks) = ''/playbooks/error?type=playbooks''"
    by (simp add: testHooks_def testErrorUrl_def)
  show ?thesis
    using view_guards [of initial testHooks]
      view_guards [of "mount testClient ''an_unknown_id'' []" testHooks]
      view_guards [of "mount (resolvesWith Null) ''pub'' []" testHooks]
    by (simp add: a b u initial_def)
qed

section \<open>The fetch status\<close>

text \<open>
  C2: the fetch status starts as loading. A fetch that resolves sets it to fetched and
  stores the result as the playbook. A fetch that fails sets it to not-found and leaves
  the stored playbook as it was; what the rejection carried is dropped, so two failures
  with different errors lead to the same state. (A fetch is issued only for a non-empty
  identifier.)
\<close>

theorem fetchData_settles:
  "fetchingState initial = loading \<and>
   (playbookId \<noteq> [] \<and> client playbookId = Resolves v \<longrightarrow>
      fetchingState (fetchData client playbookId s) = fetched \<and>
      playbook (fetchData client playbookId s) = v) \<and>
   (playbookId \<noteq> [] \<and> client playbookId = Rejects e \<longrightarrow>
      fetchingState (fetchData client playbookId s) = notFound \<and>
      playbook (fetchData client playbookId s) = playbook s) \<and>
   (playbookId \<noteq> [] \<and> client playbookId = Rejects e \<and> client' playbookId = Rejects e' \<longrightarrow>
      fetchData client' playbookId s = fetchData client playbookId s)"
  by (simp add: fetchData_def initial_def)

theorem fetchData_settles_witness:
  "fetchingState (fetchData testClient ''pub'' initial) = fetched \<and>
   playbook (fetchData testClient ''pub'' initial) = Obj testPublicPlaybook \<and>
   fetchingState (fetchData testClient ''an_unknown_id'' (fetchData testClient ''pub'' initial)) =
     notFound \<and>
   playbook (fetchData testClient ''an_unknown_id'' (fetchData testClient ''pub'' initial)) =
     Obj testPublicPlaybook \<and>
   fetchData (rejectsWith ''network'') ''an_unknown_id'' initial =
     fetchData testClient ''an_unknown_id'' initial"
proof -
  have p: "testClient ''pub'' = Resolves (Obj testPublicPlaybook)"
    by (simp add: testClient_def)
  have u: "testClient ''an_unknown_id'' = Rejects ''404''"
    by (simp add: testClient_def)
  have n: "rejectsWith ''network'' ''an_unknown_id'' = Rejects ''network''"
    by (simp add: rejectsWith_def)
  have s: "playbook (fetchData testClient ''pub'' initial) = Obj testPublicPlaybook"
    by (simp add: fetchData_def p)
  show ?thesis
    using fetchData_settles [of "''pub''" testClient "Obj testPublicPlaybook" initial
        "''404''" testClient "''404''"]
      fetchData_settles [of "''an_unknown_id''" testClient Null
        "fetchData testClient ''pub'' initial" "''404''" testClient "''404''"]
      fetchData_settles [of "''an_unknown_id''" testClient Null initial "''404''"
        "rejectsWith ''network''" "''network''"]
    by (simp add: p u n s)
qed

text \<open>
  C3: whatever a fetch fails with, the status becomes not-found and the view renders the
  redirect to the error URL built for the \<^verbatim>\<open>PLAYBOOKS\<close> error type, from any earlier
  state; it is also what a view mounted on that identifier shows after any number of
  further renders.
\<close>

theorem fetch_failure_redirects:
  assumes "playbookId \<noteq> []" and "client playbookId = Rejects e"
  shows "fetchingState (fetchData client playbookId s) = notFound \<and>
         Playbook c (fetchData client playbookId s) =
           Inr (Rendered (Redirect (pluginErrorUrl c (PLAYBOOKS c)))) \<and>
         Playbook c (mount client playbookId (replicate n playbookId)) =
           Inr (Rendered (Redirect (pluginErrorUrl c (PLAYBOOKS c))))"
  using assms by (simp add: mount_def rerender_same fetchData_def Playbook_def)

theorem fetch_failure_redirects_witness:
  "''an_unknown_id'' \<noteq> [] \<and> testClient ''an_unknown_id'' = Rejects ''404'' \<and>
   fetchingState (fetchData testClient ''an_unknown_id'' initial) = notFound \<and>
   Playbook testHooks (mount testClient ''an_unknown_id'' [''an_unknown_id'', ''an_unknown_id'']) =
     Inr (Rendered (Redirect ''/playbooks/error?type=playbooks''))"
proof -
  have u: "testClient ''an_unknown_id'' = Rejects ''404''"
    by (simp add: testClient_def)
  have r: "replicate 2 ''an_unknown_id'' = [''an_unknown_id'', ''an_unknown_id'']"
    by (simp add: numeral_2_eq_2)
  have e: "pluginErrorUrl testHooks (PLAYBOOKS testHooks) = ''/playbooks/error?type=playbooks''"
    by (simp add: testHooks_def testErrorUrl_def)
  show ?thesis
    using fetch_failure_redirects [of "''an_unknown_id''" testClient "''404''" initial testHooks 2]
    by (simp add: u r e)
qed

section \<open>The permissions description\<close>

text \<open>
  C4: for a fetched playbook with exactly one member the permissions block is the lock
  icon with the text "Only you can access this playbook"; with N members, N greater than
  one, it is the lock icon with "N people can access this playbook". The context, and with
  it the team lookup, is arbitrary: the count decides before the team is looked at.
\<close>

theorem private_description:
  assumes "fetchingState s = fetched" and "playbook s = Obj p"
  shows "(length (member_ids p) = 1 \<longrightarrow>
            findByTestId ''playbookPermissionsDescription'' (Playbook c s) =
              [description ''icon icon-lock-outline'' ''Only you can access this playbook'']) \<and>
         (1 < length (member_ids p) \<longrightarrow>
            findByTestId ''playbookPermissionsDescription'' (Playbook c s) =
              [description ''icon icon-lock-outline''
                 (toString (length (member_ids p)) @ '' people can access this playbook'')])"
  using assms by (simp add: description_fetched accessDescription_def)

theorem private_description_witness:
  "findByTestId ''playbookPermissionsDescription''
     (Playbook testHooks (mount testClient ''mine'' [])) =
     [description ''icon icon-lock-outline'' ''Only you can access this playbook''] \<and>
   findByTestId ''playbookPermissionsDescription''
     (Playbook testHooks (mount testClient ''shared'' [])) =
     [description ''icon icon-lock-outline'' ''2 people can access this playbook''] \<and>
   findByTestId ''playbookPermissionsDescription''
     (Playbook (testHooks\<lparr>getTeam := noTeams\<rparr>) (mount testClient ''shared'' [])) =
     [description ''icon icon-lock-outline'' ''2 people can access this playbook'']"
  using private_description [of "mount testClient ''mine'' []" testPrivateOnlyMinePlaybook testHooks]
    private_description [of "mount testClient ''shared'' []" testPrivateSharedPlaybook testHooks]
    private_description [of "mount testClient ''shared'' []" testPrivateSharedPlaybook
      "testHooks\<lparr>getTeam := noTeams\<rparr>"]
  by (simp add: mount_testClient toString_2 testPrivateOnlyMinePlaybook_def
      testPrivateSharedPlaybook_def)

text \<open>
  C5: for a fetched playbook without members the permissions block is the globe icon with
  "Everyone in T can access this playbook" when the store knows the playbook's team and T
  is that team's name, and the globe icon with "Everyone in this team can access this
  playbook" when it does not.
\<close>

theorem public_description:
  assumes "fetchingState s = fetched" and "playbook s = Obj p" and "length (member_ids p) = 0"
  shows "(getTeam c (team_id p) = Some t \<longrightarrow>
            findByTestId ''playbookPermissionsDescription'' (Playbook c s) =
              [description ''icon icon-globe''
                 (''Everyone in '' @ name t @ '' can access this playbook'')]) \<and>
         (getTeam c (team_id p) = None \<longrightarrow>
            findByTestId ''playbookPermissionsDescription'' (Playbook c s) =
              [description ''icon icon-globe'' ''Everyone in this team can access this playbook''])"
  using assms by (simp add: description_fetched accessDescription_def)

theorem public_description_witness:
  "findByTestId ''playbookPermissionsDescription''
     (Playbook testHooks (mount testClient ''pub'' [])) =
     [description ''icon icon-globe'' ''Everyone in Foo can access this playbook''] \<and>
   findByTestId ''playbookPermissionsDescription''
     (Playbook (testHooks\<lparr>getTeam := noTeams\<rparr>) (mount testClient ''pub'' [])) =
     [description ''icon icon-globe'' ''Everyone in this team can access this playbook'']"
  using public_description [of "mount testClient ''pub'' []" testPublicPlaybook testHooks testTeam]
    public_description [of "mount testClient ''pub'' []" testPublicPlaybook
      "testHooks\<lparr>getTeam := noTeams\<rparr>"]
  by (simp add: mount_testClient testPublicPlaybook_def testHooks_def testTeams_def testTeam_def
      noTeams_def)

section \<open>The run control\<close>

text \<open>
  C6: for a fetched playbook the view renders exactly one element with the test identifier
  \<^verbatim>\<open>run-playbook\<close>, and it is disabled if and only if the playbook's deletion timestamp
  is not zero.
\<close>

theorem run_disabled_iff_deleted:
  assumes "fetchingState s = fetched" and "playbook s = Obj p"
  shows "map isDisabled (findByTestId ''run-playbook'' (Playbook c s)) = [delete_at p \<noteq> 0]"
  using assms
  by (simp add: Playbook_fetched findByTestId_def findByTestId_run findByTestId_tabs
      findByTestId_usage hasTestId_def)

theorem run_disabled_iff_deleted_witness:
  "map isDisabled (findByTestId ''run-playbook'' (Playbook testHooks (mount testClient ''archived'' [])))
     = [True] \<and>
   map isDisabled (findByTestId ''run-playbook'' (Playbook testHooks (mount testClient ''pub'' [])))
     = [False]"
  using run_disabled_iff_deleted [of "mount testClient ''archived'' []" testArchivedPlaybook testHooks]
    run_disabled_iff_deleted [of "mount testClient ''pub'' []" testPublicPlaybook testHooks]
  by (simp add: mount_testClient testArchivedPlaybook_def testPublicPlaybook_def)

section \<open>The sub-navigation\<close>

text \<open>
  C7, as stated: for every fetched playbook, a visit of the root path renders a redirect to
  the usage sub-path. With experimental features off the view renders the usage panel in
  place of the tabs: the tree holds no \<^verbatim>\<open>Redirect\<close>, the switch mounts nothing, and the
  location stays at the root path.
\<close>

theorem root_redirect_counterexample:
  "fetchingState (mount testClient ''pub'' []) = fetched \<and>
   playbook (mount testClient ''pub'' []) = Obj testPublicPlaybook \<and>
   findByTag ''Redirect''
     (Playbook (navigate (match_url testHooksStable) testHooksStable)
        (mount testClient ''pub'' [])) = [] \<and>
   mounted (navigate (match_url testHooksStable) testHooksStable)
     (Playbook (navigate (match_url testHooksStable) testHooksStable)
        (mount testClient ''pub'' [])) = [] \<and>
   location_pathname
     (visit (match_url testHooksStable) testHooksStable (mount testClient ''pub'' [])) =
     ''/playbooks/playbooks/pub''"
proof -
  have e: "\<not> experimentalFeaturesEnabled (navigate ''/playbooks/playbooks/pub'' testHooksStable)"
    "match_url testHooksStable = ''/playbooks/playbooks/pub''"
    by (simp_all add: navigate_def testHooksStable_def testHooks_def)
  have s: "fetchingState (mount testClient ''pub'' []) = fetched"
    "playbook (mount testClient ''pub'' []) = Obj testPublicPlaybook"
    by (simp_all add: mount_testClient)
  have r: "Playbook (navigate ''/playbooks/playbooks/pub'' testHooksStable)
        (mount testClient ''pub'' []) =
      Inr (Rendered (Fragment
        [topContainer testPublicPlaybook
           (getTeam (navigate ''/playbooks/playbooks/pub'' testHooksStable)
              (team_id testPublicPlaybook)),
         Elem ''PlaybookUsage'' [(''playbook'', PlaybookProp testPublicPlaybook)] []]))"
    by (simp add: Playbook_fetched [OF s] e)
  show ?thesis
    by (simp add: e r s findByTag_def mounted_def switches_topContainer redirects_topContainer
        visit_def List.map_filter_simps navigate_simps)
qed

text \<open>
  C7, amended: for every fetched playbook, when experimental features are enabled, a visit
  of the root path (the URL that the route's own path matches exactly) makes the switch
  mount exactly the redirect to the usage sub-path, the location becomes that sub-path,
  and visiting the root path again from there gives the same result.
\<close>

theorem root_redirects_to_usage:
  assumes "fetchingState s = fetched" and "playbook s = Obj p"
    and "experimentalFeaturesEnabled c" and "matchPath c (match_url c) (match_path c) True"
  shows "mounted (navigate (match_url c) c) (Playbook (navigate (match_url c) c) s) =
           [Redirect (match_url c @ ''/usage'')] \<and>
         location_pathname (visit (match_url c) c s) = match_url c @ ''/usage'' \<and>
         visit (match_url c) (visit (match_url c) c s) s = visit (match_url c) c s"
proof -
  have v: "visit (match_url c) c s = navigate (match_url c @ ''/usage'') c"
    by (simp add: visit_def root_mounts_redirect [OF assms] List.map_filter_simps)
  have v': "visit (match_url c) (navigate (match_url c @ ''/usage'') c) s =
      navigate (match_url c @ ''/usage'') c"
    using root_mounts_redirect [OF assms]
    by (simp add: visit_def navigate_simps List.map_filter_simps)
  show ?thesis
    by (simp add: root_mounts_redirect [OF assms] v v' navigate_simps)
qed

theorem root_redirects_to_usage_witness:
  "mounted (navigate ''/playbooks/playbooks/pub'' testHooks)
     (Playbook (navigate ''/playbooks/playbooks/pub'' testHooks) (mount testClient ''pub'' [])) =
     [Redirect ''/playbooks/playbooks/pub/usage''] \<and>
   location_pathname (visit ''/playbooks/playbooks/pub'' testHooks (mount testClient ''pub'' [])) =
     ''/playbooks/playbooks/pub/usage'' \<and>
   visit ''/playbooks/playbooks/pub''
     (visit ''/playbooks/playbooks/pub'' testHooks (mount testClient ''pub'' []))
     (mount testClient ''pub'' []) =
   visit ''/playbooks/playbooks/pub'' testHooks (mount testClient ''pub'' [])"
proof -
  have h: "match_url testHooks = ''/playbooks/playbooks/pub''"
    "match_path testHooks = ''/playbooks/playbooks/:playbookId''"
    "matchPath testHooks = testMatchPath" "experimentalFeaturesEnabled testHooks"
    by (simp_all add: testHooks_def)
  show ?thesis
    using root_redirects_to_usage [of "mount testClient ''pub'' []" testPublicPlaybook testHooks]
    by (simp add: h mount_testClient testMatch_root)
qed

section \<open>The test identifiers\<close>

text \<open>
  C8 says that the render of every fetched playbook carries the four test identifiers
  \<^verbatim>\<open>archived-badge\<close>, \<^verbatim>\<open>run-playbook\<close>, \<^verbatim>\<open>edit-playbook\<close> and
  \<^verbatim>\<open>playbookPermissionsDescription\<close>. On the archived playbook of the end-to-end test the
  view's markup carries two, with experimental features on or off: no element has
  \<^verbatim>\<open>archived-badge\<close> or \<^verbatim>\<open>edit-playbook\<close>, and the edit button has the click handler as
  its only prop.
\<close>

theorem test_identifiers_archived:
  "allTestIds (Playbook testHooks (mount testClient ''archived'' [])) =
     [''playbookPermissionsDescription'', ''run-playbook''] \<and>
   allTestIds (Playbook testHooksStable (mount testClient ''archived'' [])) =
     [''playbookPermissionsDescription'', ''run-playbook''] \<and>
   findByTestId ''archived-badge'' (Playbook testHooks (mount testClient ''archived'' [])) = [] \<and>
   findByTestId ''edit-playbook'' (Playbook testHooks (mount testClient ''archived'' [])) = [] \<and>
   map propsOf (findByTag ''SecondaryButtonLargerRight''
     (Playbook testHooks (mount testClient ''archived'' []))) = [[(''onClick'', OnClick goToEdit)]]"
proof -
  have s: "fetchingState (mount testClient ''archived'' []) = fetched"
    "playbook (mount testClient ''archived'' []) = Obj testArchivedPlaybook"
    by (simp_all add: mount_testClient)
  have a: "findAll (hasTestId ''archived-badge'') (topContainer p team) = []"
    "findAll (hasTestId ''edit-playbook'') (topContainer p team) = []" for p team
    by (simp_all add: topContainer_def hasTestId_def Let_def)
  have b: "map propsOf
      (findAll (\<lambda>e. tagOf e = ''SecondaryButtonLargerRight'') (topContainer p team)) =
      [[(''onClick'', OnClick goToEdit)]]" for p team
    by (simp add: topContainer_def Let_def)
  have c: "findAll (\<lambda>e. tagOf e = ''SecondaryButtonLargerRight'') (tabs c p) = []"
    for c :: "string hooks" and p
    by (simp add: tabs_def)
  have x: "experimentalFeaturesEnabled testHooks"
    by (simp add: testHooks_def)
  have ids: "allTestIds (Playbook testHooks (mount testClient ''archived'' [])) =
      [''playbookPermissionsDescription'', ''run-playbook'']"
    "allTestIds (Playbook testHooksStable (mount testClient ''archived'' [])) =
      [''playbookPermissionsDescription'', ''run-playbook'']"
    by (simp_all add: allTestIds_fetched [OF s])
  have rest: "findByTestId ''archived-badge'' (Playbook testHooks (mount testClient ''archived'' [])) = []"
    "findByTestId ''edit-playbook'' (Playbook testHooks (mount testClient ''archived'' [])) = []"
    "map propsOf (findByTag ''SecondaryButtonLargerRight''
       (Playbook testHooks (mount testClient ''archived'' []))) = [[(''onClick'', OnClick goToEdit)]]"
    by (simp_all add: Playbook_fetched [OF s] a b c x findByTestId_def findByTestId_tabs
        findByTag_def hasTestId_def)
  show ?thesis
    using ids rest by simp
qed

section \<open>The empty identifier\<close>

text \<open>
  C9: a view mounted on the empty identifier, and rendered any number of times with the
  identifier still empty, has issued no fetch; its state is the initial one, so the
  status is loading, and it renders null. This holds for every client and every context.
\<close>

theorem empty_identifier_never_fetches:
  "mount client [] (replicate n []) = initial \<and>
   fetchCalls (mount client [] (replicate n [])) = [] \<and>
   fetchingState (mount client [] (replicate n [])) = loading \<and>
   Playbook c (mount client [] (replicate n [])) = Inr RenderNull"
proof -
  have m: "mount client [] (replicate n []) = initial"
    by (simp add: mount_def rerender_same fetchData_def)
  show ?thesis
    by (simp add: m initial_def Playbook_def)
qed

section \<open>A fetch that resolves without a playbook\<close>

text \<open>
  C10 says that after a fetch that resolved with null or undefined the status is fetched
  and the view renders the error redirect. The status is fetched in both cases and the
  value is stored as it came. With null the redirect is rendered; with undefined the
  comparison with null fails and the render throws when it reads the member list.
\<close>

theorem undefined_playbook_throws:
  "fetchingState (mount (resolvesWith Undefined) ''pub'' []) = fetched \<and>
   playbook (mount (resolvesWith Undefined) ''pub'' []) = Undefined \<and>
   Playbook testHooks (mount (resolvesWith Undefined) ''pub'' []) = Inl TypeError \<and>
   fetchingState (mount (resolvesWith Null) ''pub'' []) = fetched \<and>
   playbook (mount (resolvesWith Null) ''pub'' []) = Null \<and>
   Playbook testHooks (mount (resolvesWith Null) ''pub'' []) =
     Inr (Rendered (Redirect ''/playbooks/error?type=playbooks''))"
  by (simp add: mount_def fetchData_def resolvesWith_def initial_def Playbook_def testHooks_def
      testErrorUrl_def)

end
